theory Spec2Isabelle
  imports Main "HOL-Library.AList" "HOL-Library.Char_ord" "HOL-Library.List_Lexorder"
    "HOL-Library.Sublist"
begin

section \<open>Text\<close>

text \<open>
  A text is a \<^typ>\<open>string\<close>; one \<^typ>\<open>char\<close> stands for one code point below 256.
  \<open>NL\<close> is Python's \<^verbatim>\<open>'\n'\<close>.  \<open>is_space\<close> is the predicate behind both
  \<^verbatim>\<open>str.strip()\<close> and the regular expression class \<^verbatim>\<open>\s\<close> of a \<^verbatim>\<open>str\<close> pattern:
  code points 9 to 13, 28 to 32, 133 and 160.
\<close>

definition NL :: char where
  "NL = CHR 0x0A"

definition space_chars :: "char list" where
  "space_chars = [CHR 0x09, CHR 0x0A, CHR 0x0B, CHR 0x0C, CHR 0x0D,
                  CHR 0x1C, CHR 0x1D, CHR 0x1E, CHR 0x1F, CHR 0x20, CHR 0x85, CHR 0xA0]"

definition is_space :: "char \<Rightarrow> bool" where
  "is_space c = (c \<in> set space_chars)"

text \<open>\<^verbatim>\<open>s.split('\n')\<close>: never the empty list.\<close>

fun split_nl :: "string \<Rightarrow> string list" where
  "split_nl [] = [[]]"
| "split_nl (c # cs) =
     (if c = NL then [] # split_nl cs
      else (case split_nl cs of [] \<Rightarrow> [[c]] | l # ls \<Rightarrow> (c # l) # ls))"

text \<open>\<^verbatim>\<open>'\n'.join(lines)\<close>.\<close>

fun join_nl :: "string list \<Rightarrow> string" where
  "join_nl [] = []"
| "join_nl [l] = l"
| "join_nl (l # ls) = l @ NL # join_nl ls"

text \<open>\<^verbatim>\<open>s.count('\n')\<close>.\<close>

definition count_nl :: "string \<Rightarrow> nat" where
  "count_nl s = length (filter (\<lambda>c. c = NL) s)"

text \<open>\<^verbatim>\<open>s.find(c, start)\<close> and \<^verbatim>\<open>s.rfind(c, 0, stop)\<close>, with \<open>-1\<close> for no occurrence.\<close>

fun find_from :: "char \<Rightarrow> nat \<Rightarrow> string \<Rightarrow> int" where
  "find_from c i [] = -1"
| "find_from c i (x # xs) = (if x = c then int i else find_from c (Suc i) xs)"

definition py_find :: "string \<Rightarrow> char \<Rightarrow> nat \<Rightarrow> int" where
  "py_find s c start = find_from c start (drop start s)"

fun rfind_in :: "char \<Rightarrow> nat \<Rightarrow> string \<Rightarrow> int" where
  "rfind_in c i [] = -1"
| "rfind_in c i (x # xs) =
     (let r = rfind_in c (Suc i) xs
      in if r \<noteq> -1 then r else if x = c then int i else -1)"

definition py_rfind :: "string \<Rightarrow> char \<Rightarrow> nat \<Rightarrow> int" where
  "py_rfind s c stop = rfind_in c 0 (take stop s)"

text \<open>\<^verbatim>\<open>s[a:b]\<close> for \<open>0 \<le> a\<close> and \<open>0 \<le> b\<close>.\<close>

definition slice :: "string \<Rightarrow> int \<Rightarrow> int \<Rightarrow> string" where
  "slice s a b = take (nat b - nat a) (drop (nat a) s)"

text \<open>\<^verbatim>\<open>s.strip()\<close> and \<^verbatim>\<open>s.startswith(p)\<close>.\<close>

definition strip :: "string \<Rightarrow> string" where
  "strip s = rev (dropWhile is_space (rev (dropWhile is_space s)))"

fun strip_prefix :: "string \<Rightarrow> string \<Rightarrow> string option" where
  "strip_prefix [] s = Some s"
| "strip_prefix (p # ps) [] = None"
| "strip_prefix (p # ps) (c # cs) = (if p = c then strip_prefix ps cs else None)"

definition startswith :: "string \<Rightarrow> string \<Rightarrow> bool" where
  "startswith s p = (strip_prefix p s \<noteq> None)"

definition endswith :: "string \<Rightarrow> string \<Rightarrow> bool" where
  "endswith s p = startswith (rev s) (rev p)"

section \<open>Regular expressions\<close>

text \<open>
  The patterns of the script use literals, the classes \<^verbatim>\<open>\s\<close>, \<^verbatim>\<open>["/]\<close> and \<^verbatim>\<open>[^"]\<close>,
  greedy \<^verbatim>\<open>*\<close> and \<^verbatim>\<open>+\<close> on a class, sequence, alternation, one capturing group,
  the negative lookahead \<^verbatim>\<open>(?!...)\<close>, and the anchors \<^verbatim>\<open>^\<close> and \<^verbatim>\<open>$\<close> (no flags).
  \<open>rxm r st\<close> lists every way \<open>r\<close> can match from the state \<open>st\<close> (position, remaining
  text, text of group 1), in the order in which the backtracking matcher of \<^verbatim>\<open>re\<close>
  tries them; its head is the match \<^verbatim>\<open>re\<close> reports.
\<close>

datatype cclass = Space | AnyOf "char list" | NoneOf "char list"

fun in_class :: "cclass \<Rightarrow> char \<Rightarrow> bool" where
  "in_class Space c = is_space c"
| "in_class (AnyOf cs) c = (c \<in> set cs)"
| "in_class (NoneOf cs) c = (c \<notin> set cs)"

datatype rx =
    Chars string
  | One cclass
  | Star cclass
  | Plus cclass
  | Seq rx rx
  | Alt rx rx
  | Group rx
  | NotAhead rx
  | Bol
  | Eol

type_synonym mstate = "nat \<times> string \<times> string option"

text \<open>Greedy repetition of a class: the longest run first, then each shorter one.\<close>

fun greedy :: "cclass \<Rightarrow> nat \<Rightarrow> string \<Rightarrow> string option \<Rightarrow> mstate list" where
  "greedy c pos [] g = [(pos, [], g)]"
| "greedy c pos (x # xs) g =
     (if in_class c x then greedy c (Suc pos) xs g @ [(pos, x # xs, g)]
      else [(pos, x # xs, g)])"

fun rxm :: "rx \<Rightarrow> mstate \<Rightarrow> mstate list" where
  "rxm (Chars l) (pos, s, g) =
     (case strip_prefix l s of None \<Rightarrow> [] | Some s' \<Rightarrow> [(pos + length l, s', g)])"
| "rxm (One c) (pos, s, g) =
     (case s of [] \<Rightarrow> [] | x # xs \<Rightarrow> if in_class c x then [(Suc pos, xs, g)] else [])"
| "rxm (Star c) (pos, s, g) = greedy c pos s g"
| "rxm (Plus c) (pos, s, g) =
     (case s of [] \<Rightarrow> [] | x # xs \<Rightarrow> if in_class c x then greedy c (Suc pos) xs g else [])"
| "rxm (Seq a b) st = concat (map (rxm b) (rxm a st))"
| "rxm (Alt a b) st = rxm a st @ rxm b st"
| "rxm (Group a) (pos, s, g) =
     map (\<lambda>(pos', s', _). (pos', s', Some (take (pos' - pos) s))) (rxm a (pos, s, g))"
| "rxm (NotAhead a) st = (if rxm a st = [] then [st] else [])"
| "rxm Bol (pos, s, g) = (if pos = 0 then [(pos, s, g)] else [])"
| "rxm Eol (pos, s, g) = (if s = [] \<or> s = [NL] then [(pos, s, g)] else [])"

text \<open>A sequence of several parts, and an alternation of several branches.\<close>

fun seqs :: "rx list \<Rightarrow> rx" where
  "seqs [] = Chars []"
| "seqs [r] = r"
| "seqs (r # rs) = Seq r (seqs rs)"

fun alts :: "rx list \<Rightarrow> rx" where
  "alts [] = NotAhead (Chars [])"
| "alts [r] = r"
| "alts (r # rs) = Alt r (alts rs)"

text \<open>A match object: \<^verbatim>\<open>m.start()\<close>, \<^verbatim>\<open>m.end()\<close> and \<^verbatim>\<open>m.group(1)\<close>.\<close>

record rmatch =
  m_start :: nat
  m_end :: nat
  m_group1 :: "string option"

text \<open>
  The match starting exactly at \<open>pos\<close>, where \<open>s\<close> is the text from \<open>pos\<close> on; and the
  same when an empty match is refused (the matcher's state after an empty match).
\<close>

definition match_here :: "rx \<Rightarrow> nat \<Rightarrow> string \<Rightarrow> rmatch option" where
  "match_here r pos s =
     (case rxm r (pos, s, None) of
        [] \<Rightarrow> None
      | (e, _, g) # _ \<Rightarrow> Some \<lparr>m_start = pos, m_end = e, m_group1 = g\<rparr>)"

definition match_here_nonempty :: "rx \<Rightarrow> nat \<Rightarrow> string \<Rightarrow> rmatch option" where
  "match_here_nonempty r pos s =
     (case filter (\<lambda>(e, _, _). pos < e) (rxm r (pos, s, None)) of
        [] \<Rightarrow> None
      | (e, _, g) # _ \<Rightarrow> Some \<lparr>m_start = pos, m_end = e, m_group1 = g\<rparr>)"

text \<open>\<^verbatim>\<open>re.match(r, s)\<close> and \<^verbatim>\<open>re.search(r, s)\<close>.\<close>

definition re_match :: "rx \<Rightarrow> string \<Rightarrow> rmatch option" where
  "re_match r s = match_here r 0 s"

fun search_from :: "rx \<Rightarrow> nat \<Rightarrow> string \<Rightarrow> rmatch option" where
  "search_from r pos [] = match_here r pos []"
| "search_from r pos (c # cs) =
     (case match_here r pos (c # cs) of
        Some m \<Rightarrow> Some m
      | None \<Rightarrow> search_from r (Suc pos) cs)"

definition re_search :: "rx \<Rightarrow> string \<Rightarrow> rmatch option" where
  "re_search r s = search_from r 0 s"

text \<open>
  \<^verbatim>\<open>re.finditer(r, s)\<close>: the matches from left to right, none overlapping another.
  After a match that is not empty the scan goes on at its end; after an empty match it
  tries the same position again for a match that is not empty, then moves on by one.
  \<open>skip\<close> counts the characters still inside the last match.
\<close>

definition matches_here :: "rx \<Rightarrow> nat \<Rightarrow> string \<Rightarrow> rmatch list" where
  "matches_here r pos s =
     (case match_here r pos s of
        None \<Rightarrow> []
      | Some m \<Rightarrow>
          if pos < m_end m then [m]
          else m # (case match_here_nonempty r pos s of None \<Rightarrow> [] | Some m' \<Rightarrow> [m']))"

definition span_of :: "nat \<Rightarrow> rmatch list \<Rightarrow> nat" where
  "span_of pos ms = (case ms of [] \<Rightarrow> 0 | _ # _ \<Rightarrow> m_end (last ms) - pos)"

fun finditer_from :: "rx \<Rightarrow> nat \<Rightarrow> nat \<Rightarrow> string \<Rightarrow> rmatch list" where
  "finditer_from r pos skip [] = (if skip = 0 then matches_here r pos [] else [])"
| "finditer_from r pos skip (c # cs) =
     (if 0 < skip then finditer_from r (Suc pos) (skip - 1) cs
      else matches_here r pos (c # cs)
           @ finditer_from r (Suc pos) (span_of pos (matches_here r pos (c # cs)) - 1) cs)"

definition re_finditer :: "rx \<Rightarrow> string \<Rightarrow> rmatch list" where
  "re_finditer r s = finditer_from r 0 0 s"

text \<open>
  \<^verbatim>\<open>re.sub(r, repl, s)\<close>.  A replacement string is a list of parts: the reference
  \<^verbatim>\<open>\1\<close> or plain text.  Every match \<^verbatim>\<open>re.finditer\<close> finds is replaced.
\<close>

datatype rpart = Backref1 | Txt string

fun expand :: "rpart list \<Rightarrow> rmatch \<Rightarrow> string" where
  "expand [] m = []"
| "expand (Backref1 # ps) m = (case m_group1 m of None \<Rightarrow> [] | Some t \<Rightarrow> t) @ expand ps m"
| "expand (Txt t # ps) m = t @ expand ps m"

fun subst_matches :: "rpart list \<Rightarrow> rmatch list \<Rightarrow> nat \<Rightarrow> string \<Rightarrow> string" where
  "subst_matches repl [] pos s = s"
| "subst_matches repl (m # ms) pos s =
     take (m_start m - pos) s @ expand repl m
       @ subst_matches repl ms (m_end m) (drop (m_end m - pos) s)"

definition re_sub :: "rx \<Rightarrow> rpart list \<Rightarrow> string \<Rightarrow> string" where
  "re_sub r repl s = subst_matches repl (re_finditer r s) 0 s"

section \<open>Changes and rewriting rules\<close>

record Change =
  line_number :: int
  description :: string
  old_value :: string
  new_value :: string

text \<open>\<^verbatim>\<open>Change(i, d)\<close>: the two other fields keep their default, the empty string.\<close>

definition mk_change :: "int \<Rightarrow> string \<Rightarrow> Change" where
  "mk_change i d = \<lparr>line_number = i, description = d, old_value = [], new_value = []\<rparr>"

definition EXTERNAL_STORAGE_BASE :: string where
  "EXTERNAL_STORAGE_BASE = ''/storage/emulated/0/smb1r.android''"

text \<open>\<^verbatim>\<open>content[:m.start()].count('\n') + 1\<close>.\<close>

definition line_num_of :: "string \<Rightarrow> rmatch \<Rightarrow> int" where
  "line_num_of content m = int (count_nl (take (m_start m) content)) + 1"

definition is_comment_line :: "string \<Rightarrow> bool" where
  "is_comment_line line = startswith (strip line) ''#''"

text \<open>A rule is a pattern, a replacement and a label.\<close>

type_synonym rule = "rx \<times> rpart list \<times> string"

text \<open>\<^verbatim>\<open>(const\s+NAME\s*:=\s*)LITERAL\<close>, the shape of the patterns for constants.\<close>

definition const_rx :: "string \<Rightarrow> string \<Rightarrow> rx" where
  "const_rx name lit =
     seqs [Group (seqs [Chars ''const'', Plus Space, Chars name, Star Space, Chars '':='',
                        Star Space]),
           Chars lit]"

text \<open>\<^verbatim>\<open>LITERAL(?!/)\<close>.\<close>

definition not_before_slash :: "string \<Rightarrow> rx" where
  "not_before_slash lit = seqs [Chars lit, NotAhead (Chars ''/'')]"

subsection \<open>export\_presets.cfg: one pattern per line, the first that matches\<close>

definition permission_rx :: "string \<Rightarrow> rx" where
  "permission_rx name =
     seqs [Bol, Group (seqs [Star Space, Chars (''permissions/'' @ name), Star Space,
                             Chars ''='', Star Space]),
           Chars ''false'', Star Space, Eol]"

definition export_patterns :: "(rx \<times> string \<times> string) list" where
  "export_patterns =
     [(permission_rx ''manage_external_storage'', ''true'', ''manage_external_storage''),
      (permission_rx ''read_external_storage'', ''true'', ''read_external_storage''),
      (permission_rx ''write_external_storage'', ''true'', ''write_external_storage'')]"

definition group1 :: "rmatch \<Rightarrow> string" where
  "group1 m = (case m_group1 m of None \<Rightarrow> ''None'' | Some t \<Rightarrow> t)"

fun patch_line :: "(rx \<times> string \<times> string) list \<Rightarrow> int \<Rightarrow> string \<Rightarrow> string \<times> Change list" where
  "patch_line [] i line = (line, [])"
| "patch_line ((pattern, repl, name) # ps) i line =
     (case re_match pattern line of
        Some m \<Rightarrow> (group1 m @ repl, [mk_change i (name @ '' = '' @ repl)])
      | None \<Rightarrow> patch_line ps i line)"

fun patch_lines ::
  "(rx \<times> string \<times> string) list \<Rightarrow> int \<Rightarrow> string list \<Rightarrow> string list \<times> Change list" where
  "patch_lines ps i [] = ([], [])"
| "patch_lines ps i (line # rest) =
     (case patch_line ps i line of (new_line, cs) \<Rightarrow>
        (case patch_lines ps (i + 1) rest of (new_lines, cs') \<Rightarrow>
           (new_line # new_lines, cs @ cs')))"

text \<open>What a patch does to a text: the new text, the changes, and whether it writes.\<close>

definition rewrite_export_presets :: "string \<Rightarrow> string \<times> Change list \<times> bool" where
  "rewrite_export_presets content =
     (case patch_lines export_patterns 1 (split_nl content) of (new_lines, cs) \<Rightarrow>
        (join_nl new_lines, cs, cs \<noteq> []))"

subsection \<open>Global.gd, SettingsManager.gd, path.gd: one search per rule, every match replaced\<close>

fun rewrite_first :: "rule list \<Rightarrow> string \<Rightarrow> string \<times> Change list" where
  "rewrite_first [] content = (content, [])"
| "rewrite_first ((pattern, repl, name) # rs) content =
     (case re_search pattern content of
        Some m \<Rightarrow>
          (case rewrite_first rs (re_sub pattern repl content) of (new_content, cs) \<Rightarrow>
             (new_content, mk_change (line_num_of content m) (name @ '' actualizado'') # cs))
      | None \<Rightarrow> rewrite_first rs content)"

definition global_gd_replacements :: "rule list" where
  \<open>global_gd_replacements =
     [(const_rx ''ROM_POINTER_PATH'' ''"user://rom_pointer.smb"'',
       [Backref1, Txt (''"'' @ EXTERNAL_STORAGE_BASE @ ''/rom_pointer.smb"'')],
       ''ROM_POINTER_PATH''),
      (const_rx ''ROM_PATH'' ''"user://baserom.nes"'',
       [Backref1, Txt (''"'' @ EXTERNAL_STORAGE_BASE @ ''/baserom.nes"'')],
       ''ROM_PATH''),
      (const_rx ''ROM_ASSETS_PATH'' ''"user://resource_packs/BaseAssets"'',
       [Backref1, Txt (''"'' @ EXTERNAL_STORAGE_BASE @ ''/resource_packs/BaseAssets"'')],
       ''ROM_ASSETS_PATH'')]\<close>

definition settings_manager_replacements :: "rule list" where
  \<open>settings_manager_replacements =
     [(const_rx ''SETTINGS_DIR'' ''"user://settings.cfg"'',
       [Backref1, Txt (''"'' @ EXTERNAL_STORAGE_BASE @ ''/settings.cfg"'')],
       ''SETTINGS_DIR''),
      (seqs [Chars ''DirAccess.make_dir_absolute'', Star Space, Chars ''('', Star Space,
             Chars ''"user://resource_packs"'', Star Space, Chars '')''],
       [Txt (''DirAccess.make_dir_recursive_absolute("'' @ EXTERNAL_STORAGE_BASE
             @ ''/resource_packs")'')],
       ''make_dir resource_packs'')]\<close>

definition mod_loader_replacements :: "rule list" where
  \<open>mod_loader_replacements =
     [(const_rx ''MOD_CONFIG_DIR_PATH'' ''"user://mod_configs"'',
       [Backref1, Txt (''"'' @ EXTERNAL_STORAGE_BASE @ ''/mod_configs"'')],
       ''MOD_CONFIG_DIR_PATH'')]\<close>

definition rewrite_global_gd :: "string \<Rightarrow> string \<times> Change list \<times> bool" where
  "rewrite_global_gd content =
     (case rewrite_first global_gd_replacements content of (new_content, cs) \<Rightarrow>
        (new_content, cs, cs \<noteq> []))"

definition rewrite_settings_manager :: "string \<Rightarrow> string \<times> Change list \<times> bool" where
  "rewrite_settings_manager content =
     (case rewrite_first settings_manager_replacements content of (new_content, cs) \<Rightarrow>
        (new_content, cs, cs \<noteq> []))"

definition rewrite_mod_loader_path :: "string \<Rightarrow> string \<times> Change list \<times> bool" where
  "rewrite_mod_loader_path content =
     (case rewrite_first mod_loader_replacements content of (new_content, cs) \<Rightarrow>
        (new_content, cs, cs \<noteq> []))"

subsection \<open>SaveManager.gd: one change per match that is not on a comment line\<close>

text \<open>The line of \<open>content\<close> that holds position \<open>pos\<close>.\<close>

definition line_content_at :: "string \<Rightarrow> nat \<Rightarrow> string" where
  "line_content_at content pos =
     (let line_start = py_rfind content NL pos + 1;
          line_end = py_find content NL pos
      in slice content line_start (if line_end \<noteq> -1 then line_end else int (length content)))"

fun rewrite_save :: "rule list \<Rightarrow> string \<Rightarrow> string \<times> Change list" where
  "rewrite_save [] content = (content, [])"
| "rewrite_save ((pattern, repl, desc) # rs) content =
     (case rewrite_save rs (re_sub pattern repl content) of (new_content, cs) \<Rightarrow>
        (new_content,
         map (\<lambda>m. mk_change (line_num_of content m) (desc @ '' actualizado''))
             (filter (\<lambda>m. \<not> is_comment_line (line_content_at content (m_start m)))
                     (re_finditer pattern content))
         @ cs))"

definition save_manager_replacements :: "rule list" where
  \<open>save_manager_replacements =
     [(const_rx ''SAVE_DIR'' ''"user://saves/CAMPAIGN.sav"'',
       [Backref1, Txt (''"'' @ EXTERNAL_STORAGE_BASE @ ''/saves/CAMPAIGN.sav"'')],
       ''SAVE_DIR constante''),
      (seqs [Chars ''DirAccess.make_dir_recursive_absolute'', Star Space, Chars ''('',
             Star Space, Chars ''"user://saves"'', Star Space, Chars '')''],
       [Txt (''DirAccess.make_dir_recursive_absolute("'' @ EXTERNAL_STORAGE_BASE
             @ ''/saves")'')],
       ''make_dir saves''),
      (Chars ''"user://saves/"'',
       [Txt (''"'' @ EXTERNAL_STORAGE_BASE @ ''/saves/"'')], ''saves/''),
      (not_before_slash ''"user://saves"'',
       [Txt (''"'' @ EXTERNAL_STORAGE_BASE @ ''/saves"'')], ''saves''),
      (Chars ''"user://achievements.sav"'',
       [Txt (''"'' @ EXTERNAL_STORAGE_BASE @ ''/achievements.sav"'')], ''achievements.sav''),
      (Chars ''"user://marathon_recordings/"'',
       [Txt (''"'' @ EXTERNAL_STORAGE_BASE @ ''/marathon_recordings/"'')],
       ''marathon_recordings/''),
      (not_before_slash ''"user://marathon_recordings"'',
       [Txt (''"'' @ EXTERNAL_STORAGE_BASE @ ''/marathon_recordings"'')],
       ''marathon_recordings'')]\<close>

definition rewrite_save_manager :: "string \<Rightarrow> string \<times> Change list \<times> bool" where
  "rewrite_save_manager content =
     (case rewrite_save save_manager_replacements content of (new_content, cs) \<Rightarrow>
        (new_content, cs, new_content \<noteq> content))"

subsection \<open>ResourcePackLoader.gd and the scenes: one change per match\<close>

fun rewrite_all :: "(string \<Rightarrow> string) \<Rightarrow> rule list \<Rightarrow> string \<Rightarrow> string \<times> Change list" where
  "rewrite_all label [] content = (content, [])"
| "rewrite_all label ((pattern, repl, desc) # rs) content =
     (case rewrite_all label rs (re_sub pattern repl content) of (new_content, cs) \<Rightarrow>
        (new_content,
         map (\<lambda>m. mk_change (line_num_of content m) (label desc)) (re_finditer pattern content)
         @ cs))"

definition resource_pack_loader_replacements :: "rule list" where
  \<open>resource_pack_loader_replacements =
     [(Chars ''"user://resource_packs/"'',
       [Txt (''"'' @ EXTERNAL_STORAGE_BASE @ ''/resource_packs/"'')], ''resource_packs/''),
      (not_before_slash ''"user://resource_packs"'',
       [Txt (''"'' @ EXTERNAL_STORAGE_BASE @ ''/resource_packs"'')], ''resource_packs'')]\<close>

definition rewrite_resource_pack_loader :: "string \<Rightarrow> string \<times> Change list \<times> bool" where
  "rewrite_resource_pack_loader content =
     (case rewrite_all (\<lambda>desc. desc @ '' actualizado'') resource_pack_loader_replacements content
      of (new_content, cs) \<Rightarrow> (new_content, cs, new_content \<noteq> content))"

text \<open>The scene rules carry no label; every change has the same description.\<close>

definition tscn_pattern :: rx where
  \<open>tscn_pattern =
     seqs [Chars ''"user://'',
           Group (alts [Chars ''saves'', Chars ''achievements'', Chars ''marathon_recordings'',
                        Chars ''mod_configs'', Chars ''resource_packs'']),
           Star (NoneOf ''"''), Chars ''"'']\<close>

definition tscn_replacements :: "rule list" where
  \<open>tscn_replacements =
     [(Chars ''"user://saves/"'', [Txt (''"'' @ EXTERNAL_STORAGE_BASE @ ''/saves/"'')], []),
      (not_before_slash ''"user://saves"'',
       [Txt (''"'' @ EXTERNAL_STORAGE_BASE @ ''/saves"'')], []),
      (Chars ''"user://achievements.sav"'',
       [Txt (''"'' @ EXTERNAL_STORAGE_BASE @ ''/achievements.sav"'')], []),
      (Chars ''"user://marathon_recordings/"'',
       [Txt (''"'' @ EXTERNAL_STORAGE_BASE @ ''/marathon_recordings/"'')], []),
      (not_before_slash ''"user://marathon_recordings"'',
       [Txt (''"'' @ EXTERNAL_STORAGE_BASE @ ''/marathon_recordings"'')], []),
      (Chars ''"user://mod_configs/"'',
       [Txt (''"'' @ EXTERNAL_STORAGE_BASE @ ''/mod_configs/"'')], []),
      (not_before_slash ''"user://mod_configs"'',
       [Txt (''"'' @ EXTERNAL_STORAGE_BASE @ ''/mod_configs"'')], []),
      (Chars ''"user://resource_packs/"'',
       [Txt (''"'' @ EXTERNAL_STORAGE_BASE @ ''/resource_packs/"'')], []),
      (not_before_slash ''"user://resource_packs"'',
       [Txt (''"'' @ EXTERNAL_STORAGE_BASE @ ''/resource_packs"'')], [])]\<close>

definition rewrite_tscn :: "string \<Rightarrow> string \<times> Change list \<times> bool" where
  "rewrite_tscn content =
     (case rewrite_all (\<lambda>_. ''Referencia user:// actualizada'') tscn_replacements content
      of (new_content, cs) \<Rightarrow> (new_content, cs, cs \<noteq> []))"

subsection \<open>The patterns of the verification\<close>

definition forbidden :: rx where
  \<open>forbidden =
     alts [seqs [Chars ''"user://saves'', One (AnyOf ''"/'')],
           Chars ''"user://achievements.sav"'',
           seqs [Chars ''"user://marathon_recordings'', One (AnyOf ''"/'')],
           seqs [Chars ''"user://mod_configs'', One (AnyOf ''"/'')],
           Chars ''"user://settings.cfg"'',
           Chars ''"user://baserom.nes"'',
           Chars ''"user://rom_pointer.smb"'',
           seqs [Chars ''"user://resource_packs'', One (AnyOf ''"/'')]]\<close>

section \<open>The project tree\<close>

text \<open>
  A path is the list of its components below the project root; the empty path is the
  root.  The tree lists its entries, regular files with their content and directories,
  in the order in which the listing of a directory yields them; an entry that is made
  comes last.  A content is the text that \<^verbatim>\<open>read_text(encoding='utf-8')\<close> returns, or
  bytes that do not decode.  Beside the entries, the state keeps a journal of the copies
  and writes done so far.  Console and log output, links and permissions are left out.
\<close>

type_synonym path = "string list"

datatype fdata = Text string | Undecodable

datatype node = File fdata | Dir

datatype event = Copied path path | Wrote path string

record fsys =
  entries :: "(path \<times> node) list"
  journal :: "event list"

datatype exn =
    FileNotFoundError path
  | UnicodeDecodeError path
  | IsADirectoryError path
  | NotADirectoryError path
  | FileExistsError path
  | NameTooLong path
  | SameFileError path path

definition lookup :: "fsys \<Rightarrow> path \<Rightarrow> node option" where
  "lookup fs p = (if p = [] then Some Dir else map_of (entries fs) p)"

text \<open>\<^verbatim>\<open>p.exists()\<close>, \<^verbatim>\<open>p.is_dir()\<close> and \<^verbatim>\<open>p.is_file()\<close>.\<close>

definition exists_file :: "fsys \<Rightarrow> path \<Rightarrow> bool" where
  "exists_file fs p = (lookup fs p \<noteq> None)"

definition is_dir :: "fsys \<Rightarrow> path \<Rightarrow> bool" where
  "is_dir fs p = (lookup fs p = Some Dir)"

definition is_file :: "fsys \<Rightarrow> path \<Rightarrow> bool" where
  "is_file fs p = (case lookup fs p of Some (File d) \<Rightarrow> True | _ \<Rightarrow> False)"

definition read_text :: "fsys \<Rightarrow> path \<Rightarrow> exn + string" where
  "read_text fs p =
     (case lookup fs p of
        None \<Rightarrow> Inl (FileNotFoundError p)
      | Some Dir \<Rightarrow> Inl (IsADirectoryError p)
      | Some (File Undecodable) \<Rightarrow> Inl (UnicodeDecodeError p)
      | Some (File (Text s)) \<Rightarrow> Inr s)"

text \<open>\<^verbatim>\<open>p.write_text(s, encoding='utf-8')\<close>.\<close>

definition write_text :: "path \<Rightarrow> string \<Rightarrow> fsys \<Rightarrow> exn + fsys" where
  "write_text p s fs =
     (if is_dir fs p then Inl (IsADirectoryError p)
      else if \<not> is_dir fs (butlast p) then Inl (FileNotFoundError p)
      else Inr (fs\<lparr>entries := AList.update p (File (Text s)) (entries fs),
                   journal := journal fs @ [Wrote p s]\<rparr>))"

text \<open>The names that the listing of the directory \<open>d\<close> yields.\<close>

definition scandir :: "fsys \<Rightarrow> path \<Rightarrow> string list" where
  "scandir fs d = map last (filter (\<lambda>q. q \<noteq> [] \<and> butlast q = d) (map fst (entries fs)))"

text \<open>
  The system refuses a path of \<open>PATH_MAX\<close> bytes or more (\<^verbatim>\<open>OSError\<close>, "File name too
  long"); \<open>too_long root p\<close> says so of \<open>path_str root p\<close>, which is \<^verbatim>\<open>str(root / p)\<close>.  The entries of a tree are
  taken to lie within that limit.
\<close>

definition PATH_MAX :: nat where
  "PATH_MAX = 4096"

definition path_str :: "string \<Rightarrow> path \<Rightarrow> string" where
  "path_str root p = root @ concat (map (\<lambda>c. ''/'' @ c) p)"

definition too_long :: "string \<Rightarrow> path \<Rightarrow> bool" where
  "too_long root p = (PATH_MAX \<le> length (path_str root p))"

text \<open>
  \<^verbatim>\<open>p.mkdir(parents=True, exist_ok=True)\<close>: \<open>make_dirs p d cs\<close> goes down from the
  directory \<open>d\<close> along the components \<open>cs\<close> and makes the directories that are missing.
\<close>

fun make_dirs :: "path \<Rightarrow> path \<Rightarrow> string list \<Rightarrow> fsys \<Rightarrow> exn + fsys" where
  "make_dirs p d [] fs = Inr fs"
| "make_dirs p d (c # cs) fs =
     (case lookup fs (d @ [c]) of
        Some Dir \<Rightarrow> make_dirs p (d @ [c]) cs fs
      | Some (File x) \<Rightarrow> Inl (if cs = [] then FileExistsError p else NotADirectoryError p)
      | None \<Rightarrow> make_dirs p (d @ [c]) cs (fs\<lparr>entries := entries fs @ [(d @ [c], Dir)]\<rparr>))"

definition mkdir_parents :: "string \<Rightarrow> path \<Rightarrow> fsys \<Rightarrow> exn + fsys" where
  "mkdir_parents root p fs =
     (if too_long root p then Inl (NameTooLong p) else make_dirs p [] p fs)"

text \<open>
  \<^verbatim>\<open>shutil.copy2(src, dst)\<close>: a copy into \<open>dst\<close> when \<open>dst\<close> is a directory, onto \<open>dst\<close>
  otherwise.
\<close>

definition copy2 :: "string \<Rightarrow> path \<Rightarrow> path \<Rightarrow> fsys \<Rightarrow> exn + fsys" where
  "copy2 root src dst fs =
     (case lookup fs src of
        None \<Rightarrow> Inl (FileNotFoundError src)
      | Some Dir \<Rightarrow> Inl (IsADirectoryError src)
      | Some (File d) \<Rightarrow>
          (let dst' = (if is_dir fs dst then dst @ [last src] else dst)
           in if src = dst' then Inl (SameFileError src dst')
              else if too_long root dst' then Inl (NameTooLong dst')
              else if is_dir fs dst' then Inl (IsADirectoryError dst')
              else if \<not> is_dir fs (butlast dst') then Inl (FileNotFoundError dst')
              else Inr (fs\<lparr>entries := AList.update dst' (File d) (entries fs),
                           journal := journal fs @ [Copied src dst']\<rparr>)))"

text \<open>
  \<^verbatim>\<open>root.rglob("*" + ext)\<close> on a tree that does not change while the result is used:
  the entries, files and directories, whose name ends with \<open>ext\<close>.
\<close>

definition rglob :: "fsys \<Rightarrow> string \<Rightarrow> path list" where
  "rglob fs ext = filter (\<lambda>p. p \<noteq> [] \<and> endswith (last p) ext) (map fst (entries fs))"

text \<open>
  \<^verbatim>\<open>for p in d.rglob(pattern): body\<close> on a tree that the body changes.  The walk of
  \<^verbatim>\<open>pathlib\<close> is lazy.  In a directory it lists the entries and yields those whose name
  matches, the body running at each of them (\<open>visit_all\<close>); only then it lists the
  directory again, for its subdirectories, and walks them in turn.  So it meets what
  the body has made in a directory that it has yet to list.  A subdirectory beyond the
  limit of the system cannot exist and is passed over.
\<close>

fun visit_all ::
  "(path \<Rightarrow> fsys \<Rightarrow> 'a list \<times> fsys) \<Rightarrow> path list \<Rightarrow> fsys \<Rightarrow> 'a list \<times> fsys" where
  "visit_all body [] fs = ([], fs)"
| "visit_all body (p # ps) fs =
     (case body p fs of (rs, fs1) \<Rightarrow>
        (case visit_all body ps fs1 of (rs', fs2) \<Rightarrow> (rs @ rs', fs2)))"

function
  walk_dir ::
    "string \<Rightarrow> (string \<Rightarrow> bool) \<Rightarrow> (path \<Rightarrow> fsys \<Rightarrow> 'a list \<times> fsys) \<Rightarrow> path \<Rightarrow> fsys
       \<Rightarrow> 'a list \<times> fsys"
  and walk_subdirs ::
    "string \<Rightarrow> (string \<Rightarrow> bool) \<Rightarrow> (path \<Rightarrow> fsys \<Rightarrow> 'a list \<times> fsys) \<Rightarrow> path \<Rightarrow> string list
       \<Rightarrow> fsys \<Rightarrow> 'a list \<times> fsys"
where
  "walk_dir root matches body d fs =
     (case visit_all body (map (\<lambda>n. d @ [n]) (filter matches (scandir fs d))) fs of
        (rs, fs1) \<Rightarrow>
          (case walk_subdirs root matches body d
                  (filter (\<lambda>n. is_dir fs1 (d @ [n])) (scandir fs1 d)) fs1 of
             (rs', fs2) \<Rightarrow> (rs @ rs', fs2)))"
| "walk_subdirs root matches body d [] fs = ([], fs)"
| "walk_subdirs root matches body d (n # ns) fs =
     (if too_long root (d @ [n]) then walk_subdirs root matches body d ns fs
      else
        (case walk_dir root matches body (d @ [n]) fs of
           (rs, fs1) \<Rightarrow>
             (case walk_subdirs root matches body d ns fs1 of
                (rs', fs2) \<Rightarrow> (rs @ rs', fs2))))"
  by pat_completeness auto

termination
proof (relation
    "measures
       [\<lambda>x. case x of
               Inl (root, matches, body, d, fs) \<Rightarrow> PATH_MAX - length (path_str root d)
             | Inr (root, matches, body, d, ns, fs) \<Rightarrow> PATH_MAX - length (path_str root d),
        \<lambda>x. case x of Inl a \<Rightarrow> Suc 0 | Inr b \<Rightarrow> 0,
        \<lambda>x. case x of
               Inl a \<Rightarrow> 0
             | Inr (root, matches, body, d, ns, fs) \<Rightarrow> length ns]",
    goal_cases)
  case 1
  show ?case by simp
next
  case 2
  show ?case by simp
next
  case 3
  show ?case by simp
next
  case (4 root matches body d n ns fs)
  then have "length (path_str root (d @ [n])) < PATH_MAX"
    by (simp add: too_long_def)
  moreover have "length (path_str root d) < length (path_str root (d @ [n]))"
    by (simp add: path_str_def)
  ultimately show ?case by simp
next
  case 5
  show ?case by simp
qed

section \<open>The patcher\<close>

record patcher =
  project_root :: string
  dry_run :: bool
  timestamp :: string

definition BACKUP_DIR :: string where
  "BACKUP_DIR = ''backups''"

definition backup_dir :: "patcher \<Rightarrow> path" where
  "backup_dir cfg = [BACKUP_DIR, timestamp cfg]"

text \<open>\<^verbatim>\<open>str(project_root / p)\<close>.\<close>

definition str_path :: "patcher \<Rightarrow> path \<Rightarrow> string" where
  "str_path cfg p = project_root cfg @ concat (map (\<lambda>c. ''/'' @ c) p)"

text \<open>An error text: a message of the script, or \<^verbatim>\<open>str(e)\<close> of an exception.\<close>

datatype err = Message string | Raised exn

record FileResult =
  filepath :: string
  success :: bool
  changes :: "Change list"
  error :: "err option"
  backup_path :: "string option"

text \<open>\<^verbatim>\<open>FileResult(filepath=f, success=False)\<close>.\<close>

definition new_result :: "string \<Rightarrow> FileResult" where
  "new_result f = \<lparr>filepath = f, success = False, changes = [], error = None,
                   backup_path = None\<rparr>"

definition validate_project :: "fsys \<Rightarrow> bool" where
  "validate_project fs = exists_file fs [''project.godot'']"

text \<open>\<^verbatim>\<open>filepath.with_suffix(filepath.suffix + '.backup')\<close>.\<close>

definition with_backup_suffix :: "path \<Rightarrow> path" where
  "with_backup_suffix p = butlast p @ [last p @ ''.backup'']"

text \<open>
  \<^verbatim>\<open>create_backup\<close>.  An exception leaves the method with the directories made so
  far.
\<close>

definition create_backup :: "patcher \<Rightarrow> path \<Rightarrow> fsys \<Rightarrow> (exn + path option) \<times> fsys" where
  "create_backup cfg fp fs =
     (if \<not> exists_file fs fp then (Inr None, fs)
      else if dry_run cfg then (Inr (Some (with_backup_suffix fp)), fs)
      else
        (case mkdir_parents (project_root cfg) (backup_dir cfg) fs of
           Inl e \<Rightarrow> (Inl e, fs)
         | Inr fs1 \<Rightarrow>
             (case mkdir_parents (project_root cfg) (butlast (backup_dir cfg @ fp)) fs1 of
                Inl e \<Rightarrow> (Inl e, fs1)
              | Inr fs2 \<Rightarrow>
                  (case copy2 (project_root cfg) fp (backup_dir cfg @ fp) fs2 of
                     Inl e \<Rightarrow> (Inl e, fs2)
                   | Inr fs3 \<Rightarrow> (Inr (Some (backup_dir cfg @ fp)), fs3)))))"

text \<open>\<^verbatim>\<open>str(self.create_backup(filepath))\<close>.\<close>

definition str_backup :: "patcher \<Rightarrow> path option \<Rightarrow> string" where
  "str_backup cfg b = (case b of None \<Rightarrow> ''None'' | Some p \<Rightarrow> str_path cfg p)"

text \<open>
  The six \<^verbatim>\<open>patch_*\<close> methods share their body once the file is known to exist:
  back it up, read it, rewrite the text, write it when the rewrite asks for it and the
  run is not a dry run.  An exception leaves the method.
\<close>

definition patch_existing ::
  "patcher \<Rightarrow> path \<Rightarrow> FileResult \<Rightarrow> (string \<Rightarrow> string \<times> Change list \<times> bool) \<Rightarrow> fsys
     \<Rightarrow> (exn + FileResult) \<times> fsys" where
  "patch_existing cfg fp result rewrite fs =
     (case create_backup cfg fp fs of
        (Inl e, fs1) \<Rightarrow> (Inl e, fs1)
      | (Inr b, fs1) \<Rightarrow>
          (case read_text fs1 fp of
             Inl e \<Rightarrow> (Inl e, fs1)
           | Inr content \<Rightarrow>
               (case rewrite content of (new_content, cs, dirty) \<Rightarrow>
                  (let done = result\<lparr>backup_path := Some (str_backup cfg b), success := True,
                                     changes := cs\<rparr>
                   in if dirty \<and> \<not> dry_run cfg
                      then (case write_text fp new_content fs1 of
                              Inl e \<Rightarrow> (Inl e, fs1)
                            | Inr fs2 \<Rightarrow> (Inr done, fs2))
                      else (Inr done, fs1)))))"

definition export_presets_path :: path where
  "export_presets_path = [''export_presets.cfg'']"

definition global_gd_path :: path where
  "global_gd_path = [''Scripts'', ''Classes'', ''Singletons'', ''Global.gd'']"

definition settings_manager_path :: path where
  "settings_manager_path = [''Scripts'', ''Classes'', ''Singletons'', ''SettingsManager.gd'']"

definition mod_loader_path :: path where
  "mod_loader_path = [''addons'', ''mod_loader'', ''internal'', ''path.gd'']"

definition save_manager_path :: path where
  "save_manager_path = [''Scripts'', ''Classes'', ''Singletons'', ''SaveManager.gd'']"

definition resource_pack_loader_path :: path where
  "resource_pack_loader_path = [''Scripts'', ''Parts'', ''ResourcePackLoader.gd'']"

definition patch_export_presets :: "patcher \<Rightarrow> fsys \<Rightarrow> (exn + FileResult) \<times> fsys" where
  "patch_export_presets cfg fs =
     (let fp = export_presets_path; result = new_result (str_path cfg fp)
      in if \<not> exists_file fs fp
         then (Inr (result\<lparr>error := Some (Message ''Archivo no encontrado'')\<rparr>), fs)
         else patch_existing cfg fp result rewrite_export_presets fs)"

definition patch_global_gd :: "patcher \<Rightarrow> fsys \<Rightarrow> (exn + FileResult) \<times> fsys" where
  "patch_global_gd cfg fs =
     (let fp = global_gd_path; result = new_result (str_path cfg fp)
      in if \<not> exists_file fs fp
         then (Inr (result\<lparr>error := Some (Message ''Archivo no encontrado'')\<rparr>), fs)
         else patch_existing cfg fp result rewrite_global_gd fs)"

definition patch_settings_manager :: "patcher \<Rightarrow> fsys \<Rightarrow> (exn + FileResult) \<times> fsys" where
  "patch_settings_manager cfg fs =
     (let fp = settings_manager_path; result = new_result (str_path cfg fp)
      in if \<not> exists_file fs fp
         then (Inr (result\<lparr>error := Some (Message ''Archivo no encontrado'')\<rparr>), fs)
         else patch_existing cfg fp result rewrite_settings_manager fs)"

definition patch_mod_loader_path :: "patcher \<Rightarrow> fsys \<Rightarrow> (exn + FileResult) \<times> fsys" where
  "patch_mod_loader_path cfg fs =
     (let fp = mod_loader_path; result = new_result (str_path cfg fp)
      in if \<not> exists_file fs fp
         then (Inr (result\<lparr>error := Some (Message ''Archivo no encontrado'')\<rparr>), fs)
         else patch_existing cfg fp result rewrite_mod_loader_path fs)"

definition patch_save_manager :: "patcher \<Rightarrow> fsys \<Rightarrow> (exn + FileResult) \<times> fsys" where
  "patch_save_manager cfg fs =
     (let fp = save_manager_path; result = new_result (str_path cfg fp)
      in if \<not> exists_file fs fp
         then (Inr (result\<lparr>error := Some (Message ''Archivo no encontrado'')\<rparr>), fs)
         else patch_existing cfg fp result rewrite_save_manager fs)"

definition patch_resource_pack_loader :: "patcher \<Rightarrow> fsys \<Rightarrow> (exn + FileResult) \<times> fsys" where
  "patch_resource_pack_loader cfg fs =
     (let fp = resource_pack_loader_path; result = new_result (str_path cfg fp)
      in if \<not> exists_file fs fp
         then (Inr (result\<lparr>error := Some (Message ''Archivo no encontrado (opcional)''),
                            success := True\<rparr>), fs)
         else patch_existing cfg fp result rewrite_resource_pack_loader fs)"

text \<open>
  \<^verbatim>\<open>patch_tscn_files\<close>: the loop over \<^verbatim>\<open>self.project_root.rglob("*.tscn")\<close>, a lazy
  walk, so that the loop also meets the backup copies it has made in directories that
  the walk reaches later.  \<open>patch_tscn_one\<close> is the body of the loop: an entry without a
  match of \<open>tscn_pattern\<close> is skipped and gives no result; an exception, as for a
  directory whose name ends with \<^verbatim>\<open>.tscn\<close> or a backup that cannot be made, gives a
  failed result, and the loop goes on.
\<close>

definition patch_tscn_one :: "patcher \<Rightarrow> path \<Rightarrow> fsys \<Rightarrow> FileResult list \<times> fsys" where
  "patch_tscn_one cfg tscn_file fs =
     (let failed = (\<lambda>e. (new_result (str_path cfg tscn_file))\<lparr>error := Some (Raised e)\<rparr>)
      in case read_text fs tscn_file of
           Inl e \<Rightarrow> ([failed e], fs)
         | Inr content \<Rightarrow>
             if re_search tscn_pattern content = None then ([], fs)
             else
               (case create_backup cfg tscn_file fs of
                  (Inl e, fs1) \<Rightarrow> ([failed e], fs1)
                | (Inr b, fs1) \<Rightarrow>
                    (case rewrite_tscn content of (new_content, cs, dirty) \<Rightarrow>
                       (let done = (new_result (str_path cfg tscn_file))
                                     \<lparr>backup_path := Some (str_backup cfg b), success := True,
                                      changes := cs\<rparr>
                        in if dirty \<and> \<not> dry_run cfg
                           then (case write_text tscn_file new_content fs1 of
                                   Inl e \<Rightarrow> ([failed e], fs1)
                                 | Inr fs2 \<Rightarrow> ([done], fs2))
                           else ([done], fs1)))))"

definition patch_tscn_files :: "patcher \<Rightarrow> fsys \<Rightarrow> FileResult list \<times> fsys" where
  "patch_tscn_files cfg fs =
     walk_dir (project_root cfg) (\<lambda>n. endswith n ''.tscn'') (patch_tscn_one cfg) [] fs"

subsection \<open>Verification\<close>

text \<open>
  An entry of \<^verbatim>\<open>remaining\<close>: \<open>GdLine rel i\<close> stands for the string \<^verbatim>\<open>f"{rel}:{i}"\<close>,
  \<open>TscnFile rel\<close> for \<^verbatim>\<open>str(rel)\<close>.
\<close>

datatype residual = GdLine path int | TscnFile path

fun scan_lines :: "path \<Rightarrow> int \<Rightarrow> string list \<Rightarrow> residual list" where
  "scan_lines rel i [] = []"
| "scan_lines rel i (line # rest) =
     (if \<not> is_comment_line line \<and> re_search forbidden line \<noteq> None
      then GdLine rel i # scan_lines rel (i + 1) rest
      else scan_lines rel (i + 1) rest)"

definition scan_gd :: "fsys \<Rightarrow> path \<Rightarrow> residual list" where
  "scan_gd fs gd_file =
     (case read_text fs gd_file of
        Inl e \<Rightarrow> []
      | Inr content \<Rightarrow> scan_lines gd_file 1 (split_nl content))"

definition scan_tscn :: "fsys \<Rightarrow> path \<Rightarrow> residual list" where
  "scan_tscn fs tscn_file =
     (case read_text fs tscn_file of
        Inl e \<Rightarrow> []
      | Inr content \<Rightarrow> if re_search forbidden content \<noteq> None then [TscnFile tscn_file] else [])"

definition verify_patches :: "fsys \<Rightarrow> bool \<times> residual list" where
  "verify_patches fs =
     (let remaining = concat (map (scan_gd fs) (rglob fs ''.gd''))
                      @ concat (map (scan_tscn fs) (rglob fs ''.tscn''))
      in (remaining = [], remaining))"

subsection \<open>The run\<close>

definition patches :: "(string \<times> (patcher \<Rightarrow> fsys \<Rightarrow> (exn + FileResult) \<times> fsys)) list" where
  "patches =
     [(''export_presets.cfg'', patch_export_presets),
      (''Global.gd'', patch_global_gd),
      (''SettingsManager.gd'', patch_settings_manager),
      (''ModLoader path.gd'', patch_mod_loader_path),
      (''SaveManager.gd'', patch_save_manager),
      (''ResourcePackLoader.gd'', patch_resource_pack_loader)]"

text \<open>The loop over \<open>patches\<close>; \<open>run_patch\<close> is its body, a \<^verbatim>\<open>try\<close> with its \<^verbatim>\<open>except\<close>.\<close>

definition run_patch ::
  "patcher \<Rightarrow> string \<times> (patcher \<Rightarrow> fsys \<Rightarrow> (exn + FileResult) \<times> fsys) \<Rightarrow> fsys
     \<Rightarrow> FileResult \<times> fsys" where
  "run_patch cfg p fs =
     (case p of (name, patch_func) \<Rightarrow>
        (case patch_func cfg fs of
           (Inr result, fs1) \<Rightarrow> (result, fs1)
         | (Inl e, fs1) \<Rightarrow> ((new_result name)\<lparr>error := Some (Raised e)\<rparr>, fs1)))"

fun run_patches ::
  "patcher \<Rightarrow> (string \<times> (patcher \<Rightarrow> fsys \<Rightarrow> (exn + FileResult) \<times> fsys)) list \<Rightarrow> fsys
     \<Rightarrow> FileResult list \<times> fsys" where
  "run_patches cfg [] fs = ([], fs)"
| "run_patches cfg (p # rest) fs =
     (case run_patch cfg p fs of (result, fs1) \<Rightarrow>
        (case run_patches cfg rest fs1 of (rs, fs') \<Rightarrow> (result # rs, fs')))"

text \<open>
  What a run leaves: its return value, \<^verbatim>\<open>self.results\<close>, the tree, and the outcome of
  the verification when there was one (a run that applies changes).
\<close>

record run_out =
  r_ok :: bool
  r_results :: "FileResult list"
  r_fs :: fsys
  r_verified :: "(bool \<times> residual list) option"

definition run :: "patcher \<Rightarrow> fsys \<Rightarrow> run_out" where
  "run cfg fs =
     (if \<not> validate_project fs
      then \<lparr>r_ok = False, r_results = [], r_fs = fs, r_verified = None\<rparr>
      else
        (case run_patches cfg patches fs of (rs, fs1) \<Rightarrow>
           (case patch_tscn_files cfg fs1 of (tscn_results, fs2) \<Rightarrow>
              \<lparr>r_ok = list_all success (rs @ tscn_results),
               r_results = rs @ tscn_results,
               r_fs = fs2,
               r_verified = (if \<not> dry_run cfg then Some (verify_patches fs2) else None)\<rparr>)))"

text \<open>\<^verbatim>\<open>sys.exit(0 if patcher.run() else 1)\<close>.\<close>

definition exit_status :: "patcher \<Rightarrow> fsys \<Rightarrow> int" where
  "exit_status cfg fs = (if r_ok (run cfg fs) then 0 else 1)"

section \<open>Rollback\<close>

text \<open>
  \<^verbatim>\<open>list_backups\<close>: the directories right below \<^verbatim>\<open>backups\<close>, the greatest name first.
  \<^verbatim>\<open>iterdir\<close> raises when \<^verbatim>\<open>backups\<close> is not a directory.
\<close>

definition list_backups :: "fsys \<Rightarrow> exn + path list" where
  "list_backups fs =
     (if \<not> exists_file fs [BACKUP_DIR] then Inr []
      else if \<not> is_dir fs [BACKUP_DIR] then Inl (NotADirectoryError [BACKUP_DIR])
      else Inr (map (\<lambda>name. [BACKUP_DIR, name])
                  (rev (sort (filter (\<lambda>name. is_dir fs [BACKUP_DIR, name])
                                     (scandir fs [BACKUP_DIR]))))))"

text \<open>
  The body of the loop of \<^verbatim>\<open>rollback\<close> at the entry \<open>bf\<close> of the walk: a regular file
  is copied to its relative path below the project root; when the copy or the making
  of its directory fails, the file is skipped.  The result lists what was restored.
\<close>

definition restore_one :: "string \<Rightarrow> path \<Rightarrow> path \<Rightarrow> fsys \<Rightarrow> path list \<times> fsys" where
  "restore_one root bdir bf fs =
     (if \<not> is_file fs bf then ([], fs)
      else
        (let rel = drop (length bdir) bf
         in case mkdir_parents root (butlast rel) fs of
              Inl e \<Rightarrow> ([], fs)
            | Inr fs1 \<Rightarrow>
                (case copy2 root bf rel fs1 of
                   Inl e \<Rightarrow> ([], fs1)
                 | Inr fs2 \<Rightarrow> ([rel], fs2))))"

text \<open>
  \<^verbatim>\<open>rollback\<close>, for a backup directory named by its path below the project root, or
  none.  The loop over \<^verbatim>\<open>backup_dir.rglob("*")\<close> is the lazy walk again.
\<close>

definition rollback :: "string \<Rightarrow> fsys \<Rightarrow> path option \<Rightarrow> (exn + bool) \<times> fsys" where
  "rollback root fs named =
     (case list_backups fs of
        Inl e \<Rightarrow> (Inl e, fs)
      | Inr backups \<Rightarrow>
          if backups = [] then (Inr False, fs)
          else
            (let bdir = (case named of None \<Rightarrow> hd backups | Some d \<Rightarrow> d)
             in if \<not> exists_file fs bdir then (Inr False, fs)
                else if \<not> is_dir fs bdir then (Inr True, fs)
                else (Inr True,
                      snd (walk_dir root (\<lambda>name. True) (restore_one root bdir) bdir fs))))"
section \<open>Notions used to state the properties\<close>









text \<open>A change as the script builds every one of them.\<close>

definition plain_change :: "Change \<Rightarrow> bool" where
  "plain_change c = (old_value c = [] \<and> new_value c = [] \<and> 1 \<le> line_number c)"

text \<open>The targets of \<open>patches\<close>, in its order.\<close>

definition fixed_targets :: "path list" where
  "fixed_targets =
     [export_presets_path, global_gd_path, settings_manager_path, mod_loader_path,
      save_manager_path, resource_pack_loader_path]"

subsection \<open>The shape of a patch\<close>

text \<open>
  Every \<^verbatim>\<open>patch_*\<close> method of \<open>patches\<close> is \<open>patch_file\<close> for its path, its message
  for a missing file, whether a missing file counts as a success, and its rewrite.
\<close>

type_synonym patch_spec =
  "string \<times> path \<times> bool \<times> string \<times> (string \<Rightarrow> string \<times> Change list \<times> bool)"

definition patch_file ::
  "patcher \<Rightarrow> path \<Rightarrow> bool \<Rightarrow> string \<Rightarrow> (string \<Rightarrow> string \<times> Change list \<times> bool) \<Rightarrow> fsys
     \<Rightarrow> (exn + FileResult) \<times> fsys" where
  "patch_file cfg fp opt msg rewrite fs =
     (if \<not> exists_file fs fp
      then (Inr ((new_result (str_path cfg fp))\<lparr>error := Some (Message msg), success := opt\<rparr>),
            fs)
      else patch_existing cfg fp (new_result (str_path cfg fp)) rewrite fs)"

definition patch_specs :: "patch_spec list" where
  "patch_specs =
     [(''export_presets.cfg'', export_presets_path, False, ''Archivo no encontrado'',
       rewrite_export_presets),
      (''Global.gd'', global_gd_path, False, ''Archivo no encontrado'', rewrite_global_gd),
      (''SettingsManager.gd'', settings_manager_path, False, ''Archivo no encontrado'',
       rewrite_settings_manager),
      (''ModLoader path.gd'', mod_loader_path, False, ''Archivo no encontrado'',
       rewrite_mod_loader_path),
      (''SaveManager.gd'', save_manager_path, False, ''Archivo no encontrado'',
       rewrite_save_manager),
      (''ResourcePackLoader.gd'', resource_pack_loader_path, True,
       ''Archivo no encontrado (opcional)'', rewrite_resource_pack_loader)]"

definition spec_patch ::
  "patch_spec \<Rightarrow> string \<times> (patcher \<Rightarrow> fsys \<Rightarrow> (exn + FileResult) \<times> fsys)" where
  "spec_patch sp =
     (case sp of (name, fp, opt, msg, rewrite) \<Rightarrow>
        (name, \<lambda>cfg. patch_file cfg fp opt msg rewrite))"

definition spec_target :: "patch_spec \<Rightarrow> path" where
  "spec_target sp = fst (snd sp)"

text \<open>A path that does not lie in \<^verbatim>\<open>backups\<close>.\<close>

definition outside_backups :: "path \<Rightarrow> bool" where
  "outside_backups q = (q \<noteq> [] \<and> hd q \<noteq> BACKUP_DIR)"

subsection \<open>Concrete inputs\<close>

definition apply_cfg :: patcher where
  "apply_cfg = \<lparr>project_root = ''/game'', dry_run = False, timestamp = ''20250101_120000''\<rparr>"

definition dry_cfg :: patcher where
  "dry_cfg = \<lparr>project_root = ''/game'', dry_run = True, timestamp = ''20250101_120000''\<rparr>"

text \<open>The directories of the fixed targets.\<close>

definition target_dirs :: "(path \<times> node) list" where
  "target_dirs =
     [([''Scripts''], Dir),
      ([''Scripts'', ''Classes''], Dir),
      ([''Scripts'', ''Classes'', ''Singletons''], Dir),
      ([''addons''], Dir),
      ([''addons'', ''mod_loader''], Dir),
      ([''addons'', ''mod_loader'', ''internal''], Dir)]"

text \<open>A project with every fixed target but ResourcePackLoader.gd, and no scene.\<close>

definition project_without_scene :: fsys where
  \<open>project_without_scene =
     \<lparr>entries =
        [([''project.godot''], File (Text ''x''))] @ target_dirs @
        [(export_presets_path, File (Text ''permissions/read_external_storage=false'')),
         (global_gd_path, File (Text ''const ROM_PATH := "user://baserom.nes"'')),
         (settings_manager_path, File (Text ''x'')),
         (mod_loader_path, File (Text ''x'')),
         (save_manager_path, File (Text ''x = "user://saves/"''))],
      journal = []\<rparr>\<close>

text \<open>The same project with one scene, beside \<^verbatim>\<open>project.godot\<close>.\<close>

definition small_project :: fsys where
  \<open>small_project =
     project_without_scene
       \<lparr>entries := entries project_without_scene
                   @ [([''s.tscn''], File (Text ''p = "user://saves"''))]\<rparr>\<close>

text \<open>A project without SaveManager.gd and ResourcePackLoader.gd.\<close>

definition project_without_save_manager :: fsys where
  \<open>project_without_save_manager =
     \<lparr>entries =
        [([''project.godot''], File (Text ''x''))] @ target_dirs @
        [(export_presets_path, File (Text ''x'')),
         (global_gd_path, File (Text ''x'')),
         (settings_manager_path, File (Text ''x'')),
         (mod_loader_path, File (Text ''x''))],
      journal = []\<rparr>\<close>

text \<open>A call to create the save directory written over three lines, then a path.\<close>

definition multiline_call :: string where
  \<open>multiline_call =
     ''DirAccess.make_dir_recursive_absolute('' @ [NL] @ ''"user://saves"'' @ [NL] @ '')''
     @ [NL] @ ''x = "user://achievements.sav"''\<close>



text \<open>A scene and a script, each with a forbidden path on a line that starts with \<open>#\<close>.\<close>

definition commented_scene :: fsys where
  \<open>commented_scene =
     \<lparr>entries = [([''a.tscn''], File (Text ''# "user://saves/"''))], journal = []\<rparr>\<close>

definition commented_script :: fsys where
  \<open>commented_script =
     \<lparr>entries =
        [([''x.gd''], File (Text (''  # "user://saves/"'' @ [NL] @ ''y = "user://saves/"'')))],
      journal = []\<rparr>\<close>

section \<open>Scanning and substitution\<close>



















section \<open>One change per match\<close>



section \<open>Line numbers\<close>

text \<open>
  C7.  SaveManager.gd with the call that creates the save directory written over three
  lines and, on line 4, the path of the achievements: the second rule joins the call
  into one line, and the change for the achievements carries line 2.
\<close>

theorem line_number_after_joined_call:
  \<open>map line_number (fst (snd (rewrite_save_manager multiline_call))) = [1, 2]
   \<and> map description (fst (snd (rewrite_save_manager multiline_call)))
       = [''make_dir saves actualizado'', ''achievements.sav actualizado'']
   \<and> map (line_num_of multiline_call)
         (re_finditer (Chars ''"user://achievements.sav"'') multiline_call) = [4]\<close>
  by code_simp

section \<open>A second pass\<close>











section \<open>The tree under the operations\<close>

lemma prefix_step:
  "strict_prefix d q \<and> prefix q (d @ c # cs)
   \<longleftrightarrow> q = d @ [c] \<or> (strict_prefix (d @ [c]) q \<and> prefix q ((d @ [c]) @ cs))"
proof
  assume a: "strict_prefix d q \<and> prefix q (d @ c # cs)"
  then obtain z zs where q: "q = d @ z # zs"
    by (auto elim: strict_prefixE')
  with a have "z = c" "prefix zs cs" by auto
  with q show "q = d @ [c] \<or> (strict_prefix (d @ [c]) q \<and> prefix q ((d @ [c]) @ cs))"
    by (cases zs) (auto simp: strict_prefix_def)
next
  assume "q = d @ [c] \<or> (strict_prefix (d @ [c]) q \<and> prefix q ((d @ [c]) @ cs))"
  then show "strict_prefix d q \<and> prefix q (d @ c # cs)"
  proof
    assume "q = d @ [c]"
    then show ?thesis by (auto simp: strict_prefix_def)
  next
    assume b: "strict_prefix (d @ [c]) q \<and> prefix q ((d @ [c]) @ cs)"
    then obtain z zs where "q = (d @ [c]) @ z # zs"
      by (auto elim: strict_prefixE')
    with b show ?thesis by (auto simp: strict_prefix_def)
  qed
qed

lemma lookup_root [simp]: "lookup fs [] = Some Dir"
  by (simp add: lookup_def)

lemma lookup_update [simp]:
  "lookup (fs\<lparr>entries := AList.update k v (entries fs)\<rparr>) q
   = (if q = [] then Some Dir else if q = k then Some v else lookup fs q)"
  by (simp add: lookup_def update_conv')

lemma lookup_append [simp]:
  "lookup fs k = None \<Longrightarrow>
   lookup (fs\<lparr>entries := entries fs @ [(k, v)]\<rparr>) q = (if q = k then Some v else lookup fs q)"
  by (auto simp: lookup_def map_add_def split: option.splits if_splits)

lemma lookup_journal [simp]: "lookup (fs\<lparr>journal := j\<rparr>) q = lookup fs q"
  by (simp add: lookup_def)

lemma make_dirs_lookup:
  "make_dirs p d cs fs = Inr fs' \<Longrightarrow>
   lookup fs' q = (if strict_prefix d q \<and> prefix q (d @ cs) then Some Dir else lookup fs q)"
proof (induction cs arbitrary: d fs)
  case Nil
  then show ?case by auto
next
  case (Cons c cs)
  show ?case
  proof (cases "lookup fs (d @ [c])")
    case None
    with Cons.prems
    have m: "make_dirs p (d @ [c]) cs (fs\<lparr>entries := entries fs @ [(d @ [c], Dir)]\<rparr>) = Inr fs'"
      by simp
    show ?thesis
      using Cons.IH [OF m] None prefix_step [of d q c cs]
      by (auto simp del: append_assoc)
  next
    case (Some x)
    show ?thesis
    proof (cases x)
      case (File f)
      with Some Cons.prems show ?thesis by simp
    next
      case Dir
      with Some Cons.prems have m: "make_dirs p (d @ [c]) cs fs = Inr fs'" by simp
      show ?thesis
        using Cons.IH [OF m] Some Dir prefix_step [of d q c cs]
        by (auto simp del: append_assoc)
    qed
  qed
qed

lemma make_dirs_journal: "make_dirs p d cs fs = Inr fs' \<Longrightarrow> journal fs' = journal fs"
  by (induction cs arbitrary: d fs) (auto split: option.splits node.splits)

lemma mkdir_parents_lookup:
  "mkdir_parents root p fs = Inr fs' \<Longrightarrow>
   lookup fs' q = (if q \<noteq> [] \<and> prefix q p then Some Dir else lookup fs q)"
  using make_dirs_lookup [of p "[]" p fs fs' q]
  by (auto simp: mkdir_parents_def strict_prefix_def split: if_splits)

lemma mkdir_parents_journal: "mkdir_parents root p fs = Inr fs' \<Longrightarrow> journal fs' = journal fs"
  by (auto simp: mkdir_parents_def make_dirs_journal split: if_splits)

lemma copy2_lookup:
  "copy2 root src dst fs = Inr fs' \<Longrightarrow>
   \<exists>d. lookup fs src = Some (File d)
       \<and> (\<forall>q. lookup fs' q
               = (if q = (if is_dir fs dst then dst @ [last src] else dst) then Some (File d)
                  else lookup fs q))"
  by (auto simp: copy2_def Let_def is_dir_def split: option.splits node.splits if_splits)

lemma write_text_lookup:
  "write_text p s fs = Inr fs' \<Longrightarrow>
   lookup fs' q = (if q = p then Some (File (Text s)) else lookup fs q)"
  by (auto simp: write_text_def is_dir_def split: if_splits)

text \<open>What lies outside \<^verbatim>\<open>backups\<close> is there after a patch exactly when it was before.\<close>

lemma outside_not_prefix: "outside_backups q \<Longrightarrow> \<not> prefix q (BACKUP_DIR # rest)"
  by (cases q) (auto simp: outside_backups_def)

lemma mkdir_outside:
  "mkdir_parents root (BACKUP_DIR # rest) fs = Inr fs' \<Longrightarrow> outside_backups q \<Longrightarrow>
   lookup fs' q = lookup fs q"
  by (simp add: mkdir_parents_lookup outside_not_prefix)

lemma copy2_outside:
  "copy2 root src (BACKUP_DIR # rest) fs = Inr fs' \<Longrightarrow> outside_backups q \<Longrightarrow>
   lookup fs' q = lookup fs q"
  by (drule copy2_lookup) (auto simp: outside_backups_def)

lemma create_backup_outside:
  "outside_backups q \<Longrightarrow> lookup (snd (create_backup cfg fp fs)) q = lookup fs q"
  by (auto simp: create_backup_def backup_dir_def mkdir_outside copy2_outside
      split: sum.splits)

lemma write_text_exists:
  "write_text p s fs = Inr fs' \<Longrightarrow> exists_file fs p \<Longrightarrow> exists_file fs' q = exists_file fs q"
  by (auto simp: exists_file_def write_text_lookup)

lemma read_text_exists: "read_text fs p = Inr s \<Longrightarrow> exists_file fs p"
  by (auto simp: read_text_def exists_file_def split: option.splits)

lemma patch_existing_outside:
  assumes "outside_backups q"
  shows "exists_file (snd (patch_existing cfg fp res rw fs)) q = exists_file fs q"
proof -
  obtain b fs1 where c: "create_backup cfg fp fs = (b, fs1)"
    by (cases "create_backup cfg fp fs")
  then have "lookup fs1 q = lookup fs q"
    using create_backup_outside [OF assms, of cfg fp fs] by simp
  then have e: "exists_file fs1 q = exists_file fs q"
    by (simp add: exists_file_def)
  show ?thesis
    using c e write_text_exists read_text_exists
    by (auto simp: patch_existing_def Let_def split: sum.splits prod.splits)
qed

lemma patch_file_outside:
  "outside_backups q \<Longrightarrow>
   exists_file (snd (patch_file cfg fp opt msg rw fs)) q = exists_file fs q"
  by (simp add: patch_file_def patch_existing_outside)

lemma patch_file_missing:
  "\<not> exists_file fs fp \<Longrightarrow>
   patch_file cfg fp opt msg rw fs
   = (Inr ((new_result (str_path cfg fp))\<lparr>error := Some (Message msg), success := opt\<rparr>), fs)"
  by (simp add: patch_file_def)

section \<open>The loops\<close>

declare walk_dir.simps [simp del]

lemma patch_export_presets_eq:
  "patch_export_presets =
     (\<lambda>cfg. patch_file cfg export_presets_path False ''Archivo no encontrado''
              rewrite_export_presets)"
  by (intro ext) (simp add: patch_export_presets_def patch_file_def Let_def new_result_def)

lemma patch_global_gd_eq:
  "patch_global_gd =
     (\<lambda>cfg. patch_file cfg global_gd_path False ''Archivo no encontrado'' rewrite_global_gd)"
  by (intro ext) (simp add: patch_global_gd_def patch_file_def Let_def new_result_def)

lemma patch_settings_manager_eq:
  "patch_settings_manager =
     (\<lambda>cfg. patch_file cfg settings_manager_path False ''Archivo no encontrado''
              rewrite_settings_manager)"
  by (intro ext) (simp add: patch_settings_manager_def patch_file_def Let_def new_result_def)

lemma patch_mod_loader_path_eq:
  "patch_mod_loader_path =
     (\<lambda>cfg. patch_file cfg mod_loader_path False ''Archivo no encontrado''
              rewrite_mod_loader_path)"
  by (intro ext) (simp add: patch_mod_loader_path_def patch_file_def Let_def new_result_def)

lemma patch_save_manager_eq:
  "patch_save_manager =
     (\<lambda>cfg. patch_file cfg save_manager_path False ''Archivo no encontrado''
              rewrite_save_manager)"
  by (intro ext) (simp add: patch_save_manager_def patch_file_def Let_def new_result_def)

lemma patch_resource_pack_loader_eq:
  "patch_resource_pack_loader =
     (\<lambda>cfg. patch_file cfg resource_pack_loader_path True ''Archivo no encontrado (opcional)''
              rewrite_resource_pack_loader)"
  by (intro ext)
     (simp add: patch_resource_pack_loader_def patch_file_def Let_def new_result_def)

lemma patches_specs: "patches = map spec_patch patch_specs"
  by (simp add: patches_def patch_specs_def spec_patch_def patch_export_presets_eq
      patch_global_gd_eq patch_settings_manager_eq patch_mod_loader_path_eq
      patch_save_manager_eq patch_resource_pack_loader_eq)

lemma targets_specs: "map spec_target patch_specs = fixed_targets"
  by (simp add: patch_specs_def spec_target_def fixed_targets_def)


lemma run_patches_Cons:
  "run_patches cfg (p # rest) S =
     (fst (run_patch cfg p S) # fst (run_patches cfg rest (snd (run_patch cfg p S))),
      snd (run_patches cfg rest (snd (run_patch cfg p S))))"
  by (simp split: prod.splits)

lemma run_patches_length: "length (fst (run_patches cfg L S)) = length L"
  by (induction L arbitrary: S) (simp_all add: run_patches_Cons del: run_patches.simps(2))

lemma run_patches_nth:
  "k < length L \<Longrightarrow>
   fst (run_patches cfg L S) ! k
   = fst (run_patch cfg (L ! k) (snd (run_patches cfg (take k L) S)))"
proof (induction L arbitrary: k S)
  case Nil
  then show ?case by simp
next
  case (Cons p L)
  show ?case
  proof (cases k)
    case 0
    then show ?thesis by (simp add: run_patches_Cons del: run_patches.simps(2))
  next
    case (Suc j)
    with Cons.prems have "j < length L" by simp
    from Cons.IH [OF this] Suc show ?thesis
      by (simp add: run_patches_Cons del: run_patches.simps(2))
  qed
qed

lemma run_patch_snd:
  "snd (run_patch cfg (spec_patch sp) S)
   = snd (patch_file cfg (fst (snd sp)) (fst (snd (snd sp))) (fst (snd (snd (snd sp))))
            (snd (snd (snd (snd sp)))) S)"
  by (cases sp) (auto simp: run_patch_def spec_patch_def split: prod.splits sum.splits)

lemma run_patch_outside:
  "outside_backups q \<Longrightarrow>
   exists_file (snd (run_patch cfg (spec_patch sp) S)) q = exists_file S q"
  by (simp add: run_patch_snd patch_file_outside)

lemma run_patches_outside:
  "outside_backups q \<Longrightarrow>
   exists_file (snd (run_patches cfg (map spec_patch L) S)) q = exists_file S q"
  by (induction L arbitrary: S)
     (simp_all add: run_patches_Cons run_patch_outside del: run_patches.simps(2))

lemma run_patch_missing:
  "\<not> exists_file S fp \<Longrightarrow>
   fst (run_patch cfg (spec_patch (name, fp, opt, msg, rw)) S)
   = (new_result (str_path cfg fp))\<lparr>error := Some (Message msg), success := opt\<rparr>"
  by (simp add: run_patch_def spec_patch_def patch_file_missing)

text \<open>What holds of every result of the body holds of every result of the walk.\<close>

lemma visit_all_list_all:
  assumes "\<And>p fs. list_all P (fst (body p fs))"
  shows "list_all P (fst (visit_all body ps fs))"
proof (induction ps arbitrary: fs)
  case Nil
  show ?case by simp
next
  case (Cons p ps)
  show ?case
    using assms [of p fs] Cons.IH [of "snd (body p fs)"]
    by (auto split: prod.splits)
qed

lemma walk_list_all:
  assumes "\<And>p fs. list_all P (fst (body p fs))"
  shows "list_all P (fst (walk_dir root matches body d fs))"
    and "list_all P (fst (walk_subdirs root matches body d ns fs))"
  using assms
proof (induction root matches body d fs and root matches body d ns fs
    rule: walk_dir_walk_subdirs.induct)
  case (1 root matches body d fs)
  obtain rs fs1 where v:
    "visit_all body (map (\<lambda>n. d @ [n]) (filter matches (scandir fs d))) fs = (rs, fs1)"
    by (cases "visit_all body (map (\<lambda>n. d @ [n]) (filter matches (scandir fs d))) fs")
  have "list_all P (fst (visit_all body (map (\<lambda>n. d @ [n]) (filter matches (scandir fs d))) fs))"
    by (rule visit_all_list_all) (rule "1.prems")
  with v have "list_all P rs" by simp
  moreover have "list_all P (fst (walk_subdirs root matches body d
      (filter (\<lambda>n. is_dir fs1 (d @ [n])) (scandir fs1 d)) fs1))"
    using "1.IH" [OF v [symmetric]] "1.prems" by simp
  ultimately show ?case
    using v by (auto simp: walk_dir.simps split: prod.splits)
next
  case (2 root matches body d fs)
  show ?case by simp
next
  case (3 root matches body d n ns fs)
  show ?case
  proof (cases "too_long root (d @ [n])")
    case True
    with "3.IH"(1) "3.prems" show ?thesis by simp
  next
    case False
    obtain rs fs1 where w: "walk_dir root matches body (d @ [n]) fs = (rs, fs1)"
      by (cases "walk_dir root matches body (d @ [n]) fs")
    have "list_all P rs"
      using "3.IH"(2) [OF False] "3.prems" w by simp
    moreover have "list_all P (fst (walk_subdirs root matches body d ns fs1))"
      using "3.IH"(3) [OF False w [symmetric]] "3.prems" by simp
    ultimately show ?thesis
      using False w by (auto split: prod.splits)
  qed
qed

section \<open>The run\<close>

lemma run_invalid:
  "\<not> validate_project fs \<Longrightarrow>
   run cfg fs = \<lparr>r_ok = False, r_results = [], r_fs = fs, r_verified = None\<rparr>"
  by (simp add: run_def)

lemma run_results:
  "validate_project fs \<Longrightarrow>
   r_results (run cfg fs) =
     fst (run_patches cfg patches fs)
     @ fst (patch_tscn_files cfg (snd (run_patches cfg patches fs)))"
  by (simp add: run_def split: prod.splits)

lemma run_fs:
  "validate_project fs \<Longrightarrow>
   r_fs (run cfg fs) = snd (patch_tscn_files cfg (snd (run_patches cfg patches fs)))"
  by (simp add: run_def split: prod.splits)

lemma run_ok: "r_ok (run cfg fs) = (validate_project fs \<and> list_all success (r_results (run cfg fs)))"
  by (simp add: run_def split: prod.splits)

section \<open>Exit status\<close>

text \<open>
  C1, as amended.  The process exits with a status that is not zero exactly when
  \<^verbatim>\<open>project.godot\<close> is missing or the result of some file is a failure.  What the
  verification finds is reported and does not enter the status.
\<close>

theorem exit_status_iff:
  "exit_status cfg fs \<noteq> 0
   \<longleftrightarrow> (\<not> validate_project fs \<or> \<not> list_all success (r_results (run cfg fs)))"
  by (simp add: exit_status_def run_ok)

theorem exit_status_iff_witness:
  "validate_project project_without_save_manager
   \<and> \<not> list_all success (r_results (run apply_cfg project_without_save_manager))
   \<and> exit_status apply_cfg project_without_save_manager \<noteq> 0"
proof -
  have v: "validate_project project_without_save_manager" by code_simp
  have f: "\<not> list_all success (r_results (run apply_cfg project_without_save_manager))"
    by code_simp
  then have "\<not> validate_project project_without_save_manager
             \<or> \<not> list_all success (r_results (run apply_cfg project_without_save_manager))"
    by (rule disjI2)
  then have "exit_status apply_cfg project_without_save_manager \<noteq> 0"
    by (rule exit_status_iff [THEN iffD2])
  with v f show ?thesis by (intro conjI)
qed

text \<open>
  A run on a project without a scene: every file is patched, the status is 0, and the
  verification finds two residual matches, in the backups the run has just made of
  Global.gd and SaveManager.gd.
\<close>

theorem residual_matches_exit_zero:
  "exit_status apply_cfg project_without_scene = 0
   \<and> map_option fst (r_verified (run apply_cfg project_without_scene)) = Some False
   \<and> map_option (set \<circ> snd) (r_verified (run apply_cfg project_without_scene)) =
       Some {GdLine [''backups'', ''20250101_120000'', ''Scripts'', ''Classes'', ''Singletons'',
                     ''Global.gd''] 1,
             GdLine [''backups'', ''20250101_120000'', ''Scripts'', ''Classes'', ''Singletons'',
                     ''SaveManager.gd''] 1}"
proof -
  have "exit_status apply_cfg project_without_scene = 0" by code_simp
  moreover have "r_verified (run apply_cfg project_without_scene) =
       Some (False,
         [GdLine [''backups'', ''20250101_120000'', ''Scripts'', ''Classes'', ''Singletons'',
                  ''Global.gd''] 1,
          GdLine [''backups'', ''20250101_120000'', ''Scripts'', ''Classes'', ''Singletons'',
                  ''SaveManager.gd''] 1])"
    by code_simp
  ultimately show ?thesis by simp
qed

section \<open>The fields of a change\<close>

lemma plain_mk_change: "1 \<le> i \<Longrightarrow> plain_change (mk_change i d)"
  by (simp add: plain_change_def mk_change_def)

lemma line_num_of_pos: "1 \<le> line_num_of content m"
  by (simp add: line_num_of_def)

lemma rewrite_first_plain: "list_all plain_change (snd (rewrite_first rules t))"
  by (induction rules t rule: rewrite_first.induct)
     (auto split: prod.splits option.splits simp: plain_mk_change line_num_of_pos)

lemma rewrite_save_plain: "list_all plain_change (snd (rewrite_save rules t))"
  by (induction rules t rule: rewrite_save.induct)
     (auto split: prod.splits simp: plain_mk_change line_num_of_pos list_all_iff)

lemma rewrite_all_plain: "list_all plain_change (snd (rewrite_all label rules t))"
  by (induction label rules t rule: rewrite_all.induct)
     (auto split: prod.splits simp: plain_mk_change line_num_of_pos list_all_iff)

lemma patch_line_plain: "1 \<le> i \<Longrightarrow> list_all plain_change (snd (patch_line ps i line))"
  by (induction ps i line rule: patch_line.induct)
     (auto split: option.splits simp: plain_mk_change)

lemma patch_lines_plain: "1 \<le> i \<Longrightarrow> list_all plain_change (snd (patch_lines ps i ls))"
proof (induction ls arbitrary: i)
  case Nil
  show ?case by simp
next
  case (Cons l ls)
  from Cons.prems have "list_all plain_change (snd (patch_line ps i l))"
    by (rule patch_line_plain)
  moreover from Cons.prems have "list_all plain_change (snd (patch_lines ps (i + 1) ls))"
    by (intro Cons.IH) simp
  ultimately show ?case by (auto split: prod.splits)
qed

lemma specs_plain:
  "(name, fp, opt, msg, rw) \<in> set patch_specs \<Longrightarrow> list_all plain_change (fst (snd (rw t)))"
  using rewrite_first_plain [of global_gd_replacements t]
    rewrite_first_plain [of settings_manager_replacements t]
    rewrite_first_plain [of mod_loader_replacements t]
    rewrite_save_plain [of save_manager_replacements t]
    rewrite_all_plain [of "\<lambda>desc. desc @ '' actualizado''" resource_pack_loader_replacements t]
    patch_lines_plain [of 1 export_patterns "split_nl t"]
  by (auto simp: patch_specs_def rewrite_export_presets_def rewrite_global_gd_def
      rewrite_settings_manager_def rewrite_mod_loader_path_def rewrite_save_manager_def
      rewrite_resource_pack_loader_def split: prod.splits)

lemma tscn_plain: "list_all plain_change (fst (snd (rewrite_tscn t)))"
  using rewrite_all_plain [of "\<lambda>_. ''Referencia user:// actualizada''" tscn_replacements t]
  by (auto simp: rewrite_tscn_def split: prod.splits)


lemma patch_existing_changes:
  "fst (patch_existing cfg fp res rw fs) = Inr r \<Longrightarrow> \<exists>t. changes r = fst (snd (rw t))"
  by (auto simp: patch_existing_def Let_def split: prod.splits sum.splits if_splits)
     (metis fst_conv snd_conv)+

lemma run_patch_plain:
  assumes "sp \<in> set patch_specs"
  shows "list_all plain_change (changes (fst (run_patch cfg (spec_patch sp) S)))"
proof -
  obtain name fp opt msg rw where sp: "sp = (name, fp, opt, msg, rw)"
    by (cases sp) auto
  with assms have plain: "list_all plain_change (fst (snd (rw t)))" for t
    by (intro specs_plain) simp
  show ?thesis
  proof (cases "exists_file S fp")
    case False
    then show ?thesis
      by (simp add: sp run_patch_missing new_result_def)
  next
    case True
    show ?thesis
    proof (cases "fst (patch_existing cfg fp (new_result (str_path cfg fp)) rw S)")
      case (Inl e)
      with True show ?thesis
        by (auto simp: run_patch_def spec_patch_def patch_file_def sp new_result_def
            split: prod.splits sum.splits)
    next
      case (Inr r)
      from patch_existing_changes [OF this] plain
      have "list_all plain_change (changes r)" by auto
      with True Inr show ?thesis
        by (auto simp: run_patch_def spec_patch_def patch_file_def sp
            split: prod.splits sum.splits)
    qed
  qed
qed

lemma run_patches_plain:
  assumes "set L \<subseteq> set patch_specs"
  shows "list_all (\<lambda>r. list_all plain_change (changes r))
           (fst (run_patches cfg (map spec_patch L) S))"
  using assms
proof (induction L arbitrary: S)
  case Nil
  show ?case by simp
next
  case (Cons sp L)
  then show ?case
    by (simp add: run_patches_Cons run_patch_plain del: run_patches.simps(2))
qed

lemma tscn_one_changes:
  "r \<in> set (fst (patch_tscn_one cfg p S)) \<Longrightarrow>
   changes r = [] \<or> (\<exists>t. changes r = fst (snd (rewrite_tscn t)))"
  by (auto simp: patch_tscn_one_def new_result_def Let_def
      split: prod.splits sum.splits if_splits)
     (metis fst_conv snd_conv)+

lemma tscn_one_plain:
  "list_all (\<lambda>r. list_all plain_change (changes r)) (fst (patch_tscn_one cfg p S))"
  using tscn_one_changes [of _ cfg p S] tscn_plain
  by (fastforce simp: list_all_iff)

text \<open>
  C2, as amended.  Every change of every result of a run carries a line number, from 1
  on, and a description; its fields \<open>old_value\<close> and \<open>new_value\<close> are the empty string.
  The file is a field of the result that holds the change.
\<close>

theorem changes_are_plain:
  "list_all (\<lambda>r. list_all plain_change (changes r)) (r_results (run cfg fs))"
proof (cases "validate_project fs")
  case False
  then show ?thesis by (simp add: run_invalid)
next
  case True
  have "list_all (\<lambda>r. list_all plain_change (changes r)) (fst (run_patches cfg patches fs))"
    unfolding patches_specs by (rule run_patches_plain) simp
  moreover have "list_all (\<lambda>r. list_all plain_change (changes r))
      (fst (patch_tscn_files cfg (snd (run_patches cfg patches fs))))"
    unfolding patch_tscn_files_def by (rule walk_list_all) (rule tscn_one_plain)
  ultimately show ?thesis
    using True by (simp add: run_results)
qed

text \<open>
  SaveManager.gd with the text \<open>x = "user://saves/"\<close>: the third rule matches the
  literal and replaces it, and the one change recorded has both fields empty.
\<close>

theorem change_values_empty:
  \<open>read_text small_project save_manager_path = Inr ''x = "user://saves/"''
   \<and> map (\<lambda>m. take (m_end m - m_start m) (drop (m_start m) ''x = "user://saves/"''))
         (re_finditer (Chars ''"user://saves/"'') ''x = "user://saves/"'')
       = [''"user://saves/"'']
   \<and> (case fst (patch_save_manager apply_cfg small_project) of
         Inl e \<Rightarrow> []
       | Inr r \<Rightarrow> changes r)
       = [\<lparr>line_number = 1, description = ''saves/ actualizado'', old_value = [],
           new_value = []\<rparr>]\<close>
  by code_simp

section \<open>The optional target\<close>

lemma patches_length: "length patches = 6"
  by (simp add: patches_def)

lemma fixed_results_length: "length (fst (run_patches cfg patches fs)) = 6"
  by (simp only: run_patches_length patches_length)

lemma fixed_outside: "p \<in> set fixed_targets \<Longrightarrow> outside_backups p"
  by (auto simp: fixed_targets_def export_presets_path_def global_gd_path_def
      settings_manager_path_def mod_loader_path_def save_manager_path_def
      resource_pack_loader_path_def outside_backups_def BACKUP_DIR_def)

lemma nth_fixed_missing:
  assumes "validate_project fs" and "k < 6" and "\<not> exists_file fs (fixed_targets ! k)"
    and "patch_specs ! k = (name, fp, opt, msg, rw)"
  shows "r_results (run cfg fs) ! k
         = (new_result (str_path cfg (fixed_targets ! k)))
             \<lparr>error := Some (Message msg), success := opt\<rparr>"
proof -
  have len: "length patch_specs = 6" by (simp add: patch_specs_def)
  have t: "fixed_targets ! k = fp"
    using assms(2,4) len nth_map [of k patch_specs spec_target]
    by (simp add: targets_specs [symmetric] spec_target_def)
  have "fixed_targets ! k \<in> set fixed_targets"
    using assms(2) by (intro nth_mem) (simp add: fixed_targets_def)
  then have out: "outside_backups fp"
    using t fixed_outside by simp
  let ?S = "snd (run_patches cfg (map spec_patch (take k patch_specs)) fs)"
  have "exists_file ?S fp = exists_file fs fp"
    using out by (rule run_patches_outside)
  with assms(3) t have missing: "\<not> exists_file ?S fp" by simp
  have "r_results (run cfg fs) ! k = fst (run_patches cfg patches fs) ! k"
    using assms(1,2) by (simp add: run_results nth_append fixed_results_length)
  also have "\<dots> = fst (run_patch cfg (patches ! k) (snd (run_patches cfg (take k patches) fs)))"
    using assms(2) by (intro run_patches_nth) (simp add: patches_length)
  also have "patches ! k = spec_patch (name, fp, opt, msg, rw)"
    using assms(2,4) len by (simp add: patches_specs)
  also have "take k patches = map spec_patch (take k patch_specs)"
    by (simp add: patches_specs take_map)
  finally show ?thesis
    using run_patch_missing [OF missing, of cfg name opt msg rw] t by simp
qed

lemma exit_status_01: "exit_status cfg fs = (if list_all success (r_results (run cfg fs)) \<and> validate_project fs then 0 else 1)"
  by (auto simp: exit_status_def run_ok)

lemma list_all_nth_split:
  "k < length xs \<Longrightarrow> list_all P xs = (P (xs ! k) \<and> list_all P (take k xs @ drop (Suc k) xs))"
proof -
  assume "k < length xs"
  then have "xs = take k xs @ xs ! k # drop (Suc k) xs"
    by (rule id_take_nth_drop)
  then have "list_all P xs = list_all P (take k xs @ xs ! k # drop (Suc k) xs)"
    by simp
  then show ?thesis by auto
qed

text \<open>
  C10.  In a run on a project (\<^verbatim>\<open>project.godot\<close> is there), the results of the six
  fixed targets come first, in the order of \<open>fixed_targets\<close>.  When
  ResourcePackLoader.gd is missing, its result is a success with the error text
  "Archivo no encontrado (opcional)", and the exit status is 0 exactly when every other
  result is a success.  When one of the five other targets is missing, its result is
  a failure with the error text "Archivo no encontrado", and the exit status is 1.
\<close>

theorem only_resource_pack_loader_optional:
  assumes "validate_project fs"
  shows "(\<not> exists_file fs resource_pack_loader_path \<longrightarrow>
            success (r_results (run cfg fs) ! 5)
            \<and> error (r_results (run cfg fs) ! 5)
                = Some (Message ''Archivo no encontrado (opcional)'')
            \<and> filepath (r_results (run cfg fs) ! 5) = str_path cfg resource_pack_loader_path
            \<and> (exit_status cfg fs = 0
                 \<longleftrightarrow> list_all success (take 5 (r_results (run cfg fs))
                                          @ drop 6 (r_results (run cfg fs)))))
         \<and> (k < 5 \<and> \<not> exists_file fs (fixed_targets ! k) \<longrightarrow>
              \<not> success (r_results (run cfg fs) ! k)
              \<and> error (r_results (run cfg fs) ! k) = Some (Message ''Archivo no encontrado'')
              \<and> filepath (r_results (run cfg fs) ! k) = str_path cfg (fixed_targets ! k)
              \<and> exit_status cfg fs = 1)"
proof (intro conjI impI)
  let ?rs = "r_results (run cfg fs)"
  have len: "6 \<le> length ?rs"
    using assms by (simp add: run_results fixed_results_length)
  {
    assume "\<not> exists_file fs resource_pack_loader_path"
    then have "\<not> exists_file fs (fixed_targets ! 5)"
      by (simp add: fixed_targets_def)
    from nth_fixed_missing [OF assms _ this, of "''ResourcePackLoader.gd''"
        resource_pack_loader_path True "''Archivo no encontrado (opcional)''"
        rewrite_resource_pack_loader cfg]
    have r: "?rs ! 5 = (new_result (str_path cfg resource_pack_loader_path))
               \<lparr>error := Some (Message ''Archivo no encontrado (opcional)''), success := True\<rparr>"
      by (simp add: patch_specs_def fixed_targets_def)
    then show "success (?rs ! 5)"
      and "error (?rs ! 5) = Some (Message ''Archivo no encontrado (opcional)'')"
      and "filepath (?rs ! 5) = str_path cfg resource_pack_loader_path"
      by (simp_all add: new_result_def)
    from r have s: "success (?rs ! 5)" by (simp add: new_result_def)
    have "list_all success ?rs
          = (success (?rs ! 5) \<and> list_all success (take 5 ?rs @ drop (Suc 5) ?rs))"
      using len by (intro list_all_nth_split) simp
    with s assms show "exit_status cfg fs = 0
        \<longleftrightarrow> list_all success (take 5 ?rs @ drop 6 ?rs)"
      by (simp add: exit_status_01)
  }
  {
    assume a: "k < 5 \<and> \<not> exists_file fs (fixed_targets ! k)"
    then have k6: "k < 6" and miss: "\<not> exists_file fs (fixed_targets ! k)" by simp_all
    from a have "k = 0 \<or> k = 1 \<or> k = 2 \<or> k = 3 \<or> k = 4" by arith
    then obtain name fp rw where
      "patch_specs ! k = (name, fp, False, ''Archivo no encontrado'', rw)"
      by (auto simp: patch_specs_def)
    from nth_fixed_missing [OF assms k6 miss this, of cfg]
    have r: "?rs ! k = (new_result (str_path cfg (fixed_targets ! k)))
               \<lparr>error := Some (Message ''Archivo no encontrado''), success := False\<rparr>" .
    then show "\<not> success (?rs ! k)"
      and "error (?rs ! k) = Some (Message ''Archivo no encontrado'')"
      and "filepath (?rs ! k) = str_path cfg (fixed_targets ! k)"
      by (simp_all add: new_result_def)
    from r have "\<not> success (?rs ! k)" by (simp add: new_result_def)
    moreover have "k < length ?rs" using k6 len by simp
    ultimately have "\<not> list_all success ?rs"
      by (auto simp: list_all_length)
    then show "exit_status cfg fs = 1"
      by (simp add: exit_status_01)
  }
qed

theorem only_resource_pack_loader_optional_witness:
  "validate_project project_without_save_manager
   \<and> \<not> exists_file project_without_save_manager resource_pack_loader_path
   \<and> \<not> exists_file project_without_save_manager (fixed_targets ! 4)
   \<and> success (r_results (run apply_cfg project_without_save_manager) ! 5)
   \<and> \<not> success (r_results (run apply_cfg project_without_save_manager) ! 4)
   \<and> exit_status apply_cfg project_without_save_manager = 1"
proof -
  have v: "validate_project project_without_save_manager" by code_simp
  have a: "\<not> exists_file project_without_save_manager resource_pack_loader_path"
    by code_simp
  have b: "\<not> exists_file project_without_save_manager (fixed_targets ! 4)"
    by code_simp
  have k: "(4::nat) < 5" by simp
  from only_resource_pack_loader_optional [OF v, of apply_cfg 4] v a b k
  show ?thesis by blast
qed

section \<open>Comment lines in the verification\<close>

lemma scan_lines_sound:
  "GdLine rel j \<in> set (scan_lines rel' i ls) \<Longrightarrow>
   rel = rel' \<and> (\<exists>k < length ls. j = i + int k \<and> \<not> is_comment_line (ls ! k))"
proof (induction ls arbitrary: i)
  case Nil
  then show ?case by simp
next
  case (Cons l ls)
  show ?case
  proof (cases "GdLine rel j \<in> set (scan_lines rel' (i + 1) ls)")
    case True
    from Cons.IH [OF this] obtain k where "rel = rel'" "k < length ls" "j = i + 1 + int k"
      "\<not> is_comment_line (ls ! k)"
      by blast
    then show ?thesis
      by (intro conjI exI [of _ "Suc k"]) auto
  next
    case False
    with Cons.prems have "rel = rel'" "j = i" "\<not> is_comment_line l"
      by (auto split: if_splits)
    then show ?thesis
      by (intro conjI exI [of _ 0]) auto
  qed
qed

text \<open>
  C6, as amended.  In a script (\<^verbatim>\<open>*.gd\<close>) a line that starts with \<open>#\<close>, after its
  leading whitespace, is never among the residual matches, whatever it contains.
\<close>

theorem gd_comment_lines_excluded:
  assumes "read_text fs p = Inr content" and "i < length (split_nl content)"
    and "is_comment_line (split_nl content ! i)"
  shows "GdLine p (int i + 1) \<notin> set (snd (verify_patches fs))"
proof
  assume "GdLine p (int i + 1) \<in> set (snd (verify_patches fs))"
  then obtain g where "GdLine p (int i + 1) \<in> set (scan_gd fs g)"
    by (auto simp: verify_patches_def Let_def scan_tscn_def split: sum.splits if_splits)
  then obtain c where c: "read_text fs g = Inr c"
    "GdLine p (int i + 1) \<in> set (scan_lines g 1 (split_nl c))"
    by (cases "read_text fs g") (auto simp: scan_gd_def)
  from scan_lines_sound [OF c(2)] obtain k where k: "p = g" "k < length (split_nl c)"
    "int i + 1 = 1 + int k" "\<not> is_comment_line (split_nl c ! k)"
    by blast
  from k(1) c(1) assms(1) have "c = content" by simp
  moreover from k(3) have "k = i" by simp
  ultimately show False using k(4) assms(3) by simp
qed

theorem gd_comment_lines_excluded_witness:
  \<open>read_text commented_script [''x.gd'']
     = Inr (''  # "user://saves/"'' @ [NL] @ ''y = "user://saves/"'')
   \<and> is_comment_line (split_nl (''  # "user://saves/"'' @ [NL] @ ''y = "user://saves/"'') ! 0)
   \<and> GdLine [''x.gd''] 1 \<notin> set (snd (verify_patches commented_script))\<close>
proof -
  let ?c = \<open>''  # "user://saves/"'' @ [NL] @ ''y = "user://saves/"''\<close>
  have r: "read_text commented_script [''x.gd''] = Inr ?c" by code_simp
  have l: "0 < length (split_nl ?c)" by code_simp
  have c: "is_comment_line (split_nl ?c ! 0)" by code_simp
  from gd_comment_lines_excluded [OF r l c] r c show ?thesis by simp
qed

text \<open>
  A scene whose only line starts with \<open>#\<close> and holds a forbidden path is reported.
\<close>

theorem commented_scene_reported:
  \<open>verify_patches commented_scene = (False, [TscnFile [''a.tscn'']])
   \<and> read_text commented_scene [''a.tscn''] = Inr ''# "user://saves/"''
   \<and> is_comment_line ''# "user://saves/"''\<close>
  by code_simp

end
